theory Spec2Isabelle
  imports Main
begin

section \<open>fxlog: a shallow embedding of \<open>fxlogger.py\<close>\<close>

text \<open>
  The module keeps its state in four globals (\<open>_LOG_DIRECTORY\<close>, \<open>_CONFIGURED_LOGGERS\<close>,
  \<open>_SHARED_FILE_HANDLER\<close>, \<open>_DEFAULT_LEVEL\<close>), in the class attribute
  \<open>FXFormatter._loggers\<close>, and in the logger registry of Python's \<open>logging\<close> package
  (\<open>logging.Logger.manager.loggerDict\<close>, the logger class, the logger and handler objects).
  The model threads one record of all of this through every operation. Logger and handler
  objects live in two stores and are named by their index, so that sharing one handler
  between several loggers is visible.
\<close>

subsection \<open>Strings and paths\<close>

text \<open>
  \<open>str.rfind(c, 0, n)\<close>: the largest index below \<open>n\<close> holding \<open>c\<close>, or \<open>-1\<close>.
\<close>

fun rfind_upto :: "char \<Rightarrow> string \<Rightarrow> nat \<Rightarrow> int" where
  "rfind_upto c s 0 = -1"
| "rfind_upto c s (Suc j) = (if s ! j = c then int j else rfind_upto c s j)"

definition rfind :: "char \<Rightarrow> string \<Rightarrow> int" where
  "rfind c s = rfind_upto c s (length s)"



text \<open>
  The chain of indices visited by \<open>Manager._fixupParents\<close>: \<open>i = name.rfind(".")\<close>, then
  \<open>i = name.rfind(".", 0, i - 1)\<close>, as long as \<open>i > 0\<close>. Each index gives the ancestor
  name \<open>name[:i]\<close>, nearest ancestor first.
\<close>

fun dot_chain :: "string \<Rightarrow> nat \<Rightarrow> nat list" where
  "dot_chain s 0 = []"
| "dot_chain s (Suc j) =
     (if s ! j = CHR ''.'' then j # dot_chain s (j - 1) else dot_chain s j)"

definition ancestor_names :: "string \<Rightarrow> string list" where
  "ancestor_names n = map (\<lambda>i. take i n) (takeWhile (\<lambda>i. i > 0) (dot_chain n (length n)))"

text \<open>Decimal rendering, as \<open>str\<close> and the format fields \<open>{lineno}\<close> and \<open>%H\<close> produce it.\<close>

definition digit :: "nat \<Rightarrow> char" where
  "digit d = ''0123456789'' ! d"

fun str_nat :: "nat \<Rightarrow> string" where
  "str_nat n = (if n < 10 then [digit n] else str_nat (n div 10) @ [digit (n mod 10)])"

declare str_nat.simps [simp del]

definition str_int :: "int \<Rightarrow> string" where
  "str_int i = (if i < 0 then ''-'' @ str_nat (nat (- i)) else str_nat (nat i))"

definition two_digits :: "nat \<Rightarrow> string" where
  "two_digits n = [digit (n div 10 mod 10), digit (n mod 10)]"

definition NL :: char where
  "NL = CHR 0x0A"

definition quoted :: "string \<Rightarrow> string" where
  "quoted s = CHR 0x27 # s @ [CHR 0x27]"

text \<open>
  A path is its list of components; \<open>Path.joinpath\<close> appends components and the parent of
  a path drops the last one. The configured log directory is one such path.
\<close>

type_synonym path = "string list"

fun path_str :: "path \<Rightarrow> string" where
  "path_str [] = []"
| "path_str [c] = c"
| "path_str (c # cs) = c @ ''/'' @ path_str cs"

subsection \<open>Levels and the colour palette\<close>

definition CRITICAL :: int where "CRITICAL = 50"
definition ERROR :: int where "ERROR = 40"
definition WARNING :: int where "WARNING = 30"
definition INFO :: int where "INFO = 20"
definition DEBUG :: int where "DEBUG = 10"
definition NOTSET :: int where "NOTSET = 0"

text \<open>The escape sequences of \<open>colorama.Fore\<close> and \<open>colorama.Style\<close>.\<close>

definition ESC :: char where "ESC = CHR 0x1B"

definition Fore_RED :: string where "Fore_RED = ESC # ''[31m''"
definition Fore_GREEN :: string where "Fore_GREEN = ESC # ''[32m''"
definition Fore_YELLOW :: string where "Fore_YELLOW = ESC # ''[33m''"
definition Fore_MAGENTA :: string where "Fore_MAGENTA = ESC # ''[35m''"
definition Fore_CYAN :: string where "Fore_CYAN = ESC # ''[36m''"
definition Fore_WHITE :: string where "Fore_WHITE = ESC # ''[37m''"
definition Style_DIM :: string where "Style_DIM = ESC # ''[2m''"
definition Style_RESET_ALL :: string where "Style_RESET_ALL = ESC # ''[0m''"



subsection \<open>Records and the formatter\<close>

text \<open>
  A \<open>logging.LogRecord\<close>, with the attributes the formatter reads. \<open>rec_message\<close> is the
  text \<open>record.getMessage()\<close> yields (the message with its arguments merged in),
  \<open>rec_created\<close> the creation time in seconds of local time, \<open>rec_color\<close> the attribute
  \<open>color\<close> that \<open>_log\<close> sets when an override colour is given, and
  \<open>rec_module_function\<close> the attribute \<open>module_function\<close> that \<open>format\<close> sets.
  Records carry no exception or stack information.
\<close>

record LogRecord =
  rec_name :: string
  rec_levelno :: int
  rec_pathname :: string
  rec_lineno :: nat
  rec_funcName :: string
  rec_created :: nat
  rec_message :: string
  rec_color :: "string option"
  rec_module_function :: "string option"

record FXFormatter =
  enable_color :: bool
  enable_separator :: bool

text \<open>\<open>FXFormatter.__init__\<close>; the first argument is \<open>_COLOR_SUPPORTED\<close>.\<close>

definition FXFormatter_init :: "bool \<Rightarrow> bool \<Rightarrow> bool \<Rightarrow> FXFormatter" where
  "FXFormatter_init supported enable_color_arg enable_separator_arg =
     (let self = \<lparr>enable_color = enable_color_arg, enable_separator = enable_separator_arg\<rparr>
      in if enable_color_arg
         then (if \<not> supported then self\<lparr>enable_color := False\<rparr> else self)
         else self)"

definition level_colors :: "int \<Rightarrow> string option" where
  "level_colors lvl =
     (if lvl = DEBUG then Some Fore_CYAN
      else if lvl = INFO then Some Fore_GREEN
      else if lvl = WARNING then Some Fore_YELLOW
      else if lvl = ERROR then Some Fore_RED
      else if lvl = CRITICAL then Some Fore_MAGENTA
      else None)"

text \<open>\<open>logging.getLevelName\<close> with the standard level names.\<close>

definition getLevelName :: "int \<Rightarrow> string" where
  "getLevelName lvl =
     (if lvl = CRITICAL then ''CRITICAL''
      else if lvl = ERROR then ''ERROR''
      else if lvl = WARNING then ''WARNING''
      else if lvl = INFO then ''INFO''
      else if lvl = DEBUG then ''DEBUG''
      else if lvl = NOTSET then ''NOTSET''
      else ''Level '' @ str_int lvl)"

text \<open>The format field \<open>{levelname:>8s}\<close>: right-aligned in eight columns, never cut.\<close>

definition rjust :: "nat \<Rightarrow> string \<Rightarrow> string" where
  "rjust w s = replicate (w - length s) (CHR '' '') @ s"

text \<open>\<open>{asctime}\<close> under the date format \<open>%H:%M:%S\<close>.\<close>

definition asctime :: "nat \<Rightarrow> string" where
  "asctime t =
     two_digits (t div 3600 mod 24) @ '':'' @ two_digits (t div 60 mod 60) @ '':''
       @ two_digits (t mod 60)"

text \<open>
  \<open>FXFormatter.format\<close>. Besides the formatter and the record it reads and writes the
  class attribute \<open>FXFormatter._loggers\<close>, here the third argument and the third
  component of the result; the second component is the record as the call leaves it.
  The text is assembled as \<open>logging.Formatter(log_fmt, style="{").format(record)\<close> fills
  the fields of \<open>log_fmt\<close>.
\<close>

definition FXFormatter_format ::
  "FXFormatter \<Rightarrow> LogRecord \<Rightarrow> string list \<Rightarrow> string \<times> LogRecord \<times> string list" where
  "FXFormatter_format self record0 loggers0 =
     (let loggers1 = (if rec_name record0 \<notin> set loggers0
                      then loggers0 @ [rec_name record0] else loggers0);
          width_levelname = 8;
          module_function = rec_name record0 @ '':'' @ rec_funcName record0;
          record = record0\<lparr>rec_module_function := Some module_function\<rparr>;
          levelname = rjust width_levelname (getLevelName (rec_levelno record));
          log_text =
            (if enable_color self then
               (let separator =
                      (if enable_separator self
                       then Style_DIM @ replicate 79 (CHR ''-'') @ Style_RESET_ALL @ [NL]
                       else []);
                    message_color = rec_color record;
                    colored = (case message_color of None \<Rightarrow> False
                               | Some c \<Rightarrow> c \<noteq> [] \<and> enable_color self);
                    color_start = (if colored then (case message_color of Some c \<Rightarrow> c | None \<Rightarrow> [])
                                   else []);
                    color_end = (if colored then Style_RESET_ALL else [])
                in separator
                   @ Style_DIM @ asctime (rec_created record) @ '' '' @ Style_RESET_ALL
                   @ (case level_colors (rec_levelno record) of
                        Some c \<Rightarrow> c | None \<Rightarrow> Fore_WHITE)
                   @ levelname @ '' '' @ Style_RESET_ALL @ Style_DIM @ '' '' @ Style_RESET_ALL
                   @ Style_DIM @ module_function @ '':'' @ str_nat (rec_lineno record)
                   @ Style_RESET_ALL @ [NL]
                   @ ''    '' @ color_start @ rec_message record @ color_end)
             else
               (let separator =
                      (if enable_separator self then replicate 79 (CHR ''-'') @ [NL] else [])
                in separator
                   @ asctime (rec_created record) @ '' ''
                   @ levelname @ '' ''
                   @ module_function @ '':'' @ str_nat (rec_lineno record) @ [NL]
                   @ ''    '' @ rec_message record))
      in (log_text, record, loggers1))"

subsection \<open>The process state\<close>

text \<open>
  \<open>Logger\<close> stands for \<open>logging.Logger\<close> and its subclasses other than the module's own
  (the root logger among them), \<open>FXColorLogger\<close> for the module's class.
\<close>

datatype logger_class = Logger | FXColorLogger

record logger =
  lg_name :: string
  lg_class :: logger_class
  lg_level :: int
  lg_handlers :: "nat list"
  lg_propagate :: bool

text \<open>
  A handler is a \<open>logging.StreamHandler()\<close> (writing to the standard error stream) or the
  \<open>FXTimedRotatingFileHandler\<close> on a file; \<open>h_formatter\<close> is \<open>None\<close> for a handler
  without formatter, which \<open>logging\<close> formats as the bare message.
\<close>

datatype handler_kind = StreamHandler | FXTimedRotatingFileHandler path

record handler =
  h_kind :: handler_kind
  h_formatter :: "FXFormatter option"
  h_level :: int

text \<open>An entry of \<open>Manager.loggerDict\<close>: a placeholder, or a logger of the store.\<close>

datatype dict_entry = PlaceHolder | LoggerAt nat

text \<open>
  The globals of the module (\<open>LOG_DIRECTORY\<close> to \<open>DEFAULT_LEVEL\<close>, without the leading
  underscore), the class attribute \<open>FXFormatter._loggers\<close>, the registry of \<open>logging\<close>,
  the two object stores (the root logger is object 0 of \<open>loggers\<close>), the part of the file
  system the module looks at (directories; regular files with their modification time in
  microseconds), what the environment supplies (\<open>datetime.now()\<close> in microseconds and as
  \<open>%Y_%m_%d\<close>, \<open>platform.node()\<close>, \<open>getpass.getuser()\<close>), and what has been written:
  the lines printed, the lines sent to the console handlers, the lines appended to files.
  The two sets of names are lists without repetition.
\<close>

record state =
  COLOR_SUPPORTED :: bool
  LOG_DIRECTORY :: "path option"
  CONFIGURED_LOGGERS :: "string list"
  SHARED_FILE_HANDLER :: "nat option"
  DEFAULT_LEVEL :: "int option"
  FXFormatter_loggers :: "string list"
  loggerDict :: "string \<rightharpoonup> dict_entry"
  loggerClass :: logger_class
  loggers :: "logger list"
  handlers :: "handler list"
  fs_dirs :: "path list"
  fs_files :: "(path \<times> int) list"
  env_now :: int
  env_today :: string
  env_node :: string
  env_user :: string
  stdout :: "string list"
  stderr :: "string list"
  file_out :: "(path \<times> string) list"

datatype error = ValueError string | AttributeError

text \<open>
  The state once the module is imported in a fresh interpreter: only the root logger
  exists, at level \<open>WARNING\<close> and without handlers.
\<close>

definition root_logger :: logger where
  "root_logger = \<lparr>lg_name = ''root'', lg_class = Logger, lg_level = WARNING,
                   lg_handlers = [], lg_propagate = True\<rparr>"

definition initial_state ::
  "bool \<Rightarrow> path list \<Rightarrow> (path \<times> int) list \<Rightarrow> int \<Rightarrow> string \<Rightarrow> string \<Rightarrow> string \<Rightarrow> state" where
  "initial_state supported dirs files now today node_name user_name =
     \<lparr>COLOR_SUPPORTED = supported, LOG_DIRECTORY = None, CONFIGURED_LOGGERS = [],
      SHARED_FILE_HANDLER = None, DEFAULT_LEVEL = None, FXFormatter_loggers = [],
      loggerDict = Map.empty, loggerClass = Logger, loggers = [root_logger], handlers = [],
      fs_dirs = dirs, fs_files = files, env_now = now, env_today = today,
      env_node = node_name, env_user = user_name, stdout = [], stderr = [], file_out = []\<rparr>"

subsection \<open>The registry of \<open>logging\<close>\<close>

text \<open>
  \<open>Manager._fixupParents\<close> as far as \<open>loggerDict\<close> goes: walking up the ancestor names,
  a missing name gets a placeholder and the walk ends at the first name that holds a
  logger.
\<close>

fun fixupParents :: "(string \<rightharpoonup> dict_entry) \<Rightarrow> string list \<Rightarrow> (string \<rightharpoonup> dict_entry)" where
  "fixupParents d [] = d"
| "fixupParents d (s # ss) =
     (case d s of
        None \<Rightarrow> fixupParents (d(s \<mapsto> PlaceHolder)) ss
      | Some (LoggerAt a) \<Rightarrow> d
      | Some PlaceHolder \<Rightarrow> fixupParents d ss)"

definition new_logger :: "logger_class \<Rightarrow> string \<Rightarrow> logger" where
  "new_logger cls n = \<lparr>lg_name = n, lg_class = cls, lg_level = NOTSET,
                        lg_handlers = [], lg_propagate = True\<rparr>"

text \<open>
  \<open>Manager.getLogger\<close>: the logger registered under the name, or a new object of the
  current logger class, which also takes the place of a placeholder.
\<close>

definition Manager_getLogger :: "string \<Rightarrow> state \<Rightarrow> nat \<times> state" where
  "Manager_getLogger n st =
     (case loggerDict st n of
        Some (LoggerAt a) \<Rightarrow> (a, st)
      | _ \<Rightarrow>
          (let a = length (loggers st)
           in (a, st\<lparr>loggers := loggers st @ [new_logger (loggerClass st) n],
                     loggerDict := fixupParents ((loggerDict st)(n \<mapsto> LoggerAt a))
                                     (ancestor_names n)\<rparr>)))"

text \<open>\<open>logging.getLogger\<close>: the empty name and the name \<open>root\<close> give the root logger.\<close>

definition getLogger :: "string \<Rightarrow> state \<Rightarrow> nat \<times> state" where
  "getLogger n st = (if n = [] \<or> n = ''root'' then (0, st) else Manager_getLogger n st)"

text \<open>\<open>Logger.addHandler\<close> appends a handler unless the logger already has it.\<close>

definition addHandler :: "nat \<Rightarrow> nat \<Rightarrow> state \<Rightarrow> state" where
  "addHandler a h st =
     (let lg = loggers st ! a
      in if h \<in> set (lg_handlers lg) then st
         else st\<lparr>loggers := (loggers st)[a := lg\<lparr>lg_handlers := lg_handlers lg @ [h]\<rparr>]\<rparr>)"

text \<open>\<open>Logger.setLevel\<close> and \<open>Handler.setLevel\<close>.\<close>

definition setLevel :: "nat \<Rightarrow> int \<Rightarrow> state \<Rightarrow> state" where
  "setLevel a lvl st = st\<lparr>loggers := (loggers st)[a := (loggers st ! a)\<lparr>lg_level := lvl\<rparr>]\<rparr>"

definition Handler_setLevel :: "nat \<Rightarrow> int \<Rightarrow> state \<Rightarrow> state" where
  "Handler_setLevel h lvl st =
     st\<lparr>handlers := (handlers st)[h := (handlers st ! h)\<lparr>h_level := lvl\<rparr>]\<rparr>"

text \<open>
  \<open>Logger.getEffectiveLevel\<close>: the logger's own level unless it is \<open>NOTSET\<close>, else that of
  the nearest ancestor whose level is set; the root logger ends the chain. The parent of
  a logger is the logger registered under its nearest ancestor name, as the manager
  maintains it.
\<close>

fun inherited_level :: "state \<Rightarrow> string list \<Rightarrow> int" where
  "inherited_level st [] = lg_level (loggers st ! 0)"
| "inherited_level st (s # ss) =
     (case loggerDict st s of
        Some (LoggerAt b) \<Rightarrow>
          (if lg_level (loggers st ! b) \<noteq> NOTSET then lg_level (loggers st ! b)
           else inherited_level st ss)
      | _ \<Rightarrow> inherited_level st ss)"

definition getEffectiveLevel :: "state \<Rightarrow> nat \<Rightarrow> int" where
  "getEffectiveLevel st a =
     (let lg = loggers st ! a
      in if lg_level lg \<noteq> NOTSET then lg_level lg
         else inherited_level st (ancestor_names (lg_name lg)))"

text \<open>
  \<open>Logger.isEnabledFor\<close>, for loggers that are not disabled and with no
  \<open>logging.disable\<close> in force (the module sets neither).
\<close>

definition isEnabledFor :: "state \<Rightarrow> nat \<Rightarrow> int \<Rightarrow> bool" where
  "isEnabledFor st a lvl = (lvl \<ge> getEffectiveLevel st a)"

subsection \<open>The log directory and the shared file handler\<close>

definition is_dir :: "state \<Rightarrow> path \<Rightarrow> bool" where
  "is_dir st p = (p \<in> set (fs_dirs st))"

text \<open>\<open>Path.mkdir(parents=True, exist_ok=True)\<close>: the path and its missing ancestors.\<close>

definition mkdir_parents :: "path \<Rightarrow> path list \<Rightarrow> path list" where
  "mkdir_parents p dirs = fold (\<lambda>k ds. List.insert (take k p) ds) [1..<Suc (length p)] dirs"

text \<open>Opening a file for appending creates it when it is not there.\<close>

definition open_append :: "path \<Rightarrow> state \<Rightarrow> state" where
  "open_append p st =
     (if p \<in> set (map fst (fs_files st)) then st
      else st\<lparr>fs_files := fs_files st @ [(p, env_now st)]\<rparr>)"

text \<open>
  \<open>_create_shared_file_handler\<close>. It dereferences \<open>_LOG_DIRECTORY\<close>, which fails with an
  \<open>AttributeError\<close> while the directory is unset. The handler rotates at midnight and
  keeps 30 files; rotation itself is not part of the model.
\<close>

definition create_shared_file_handler :: "state \<Rightarrow> error + (nat \<times> state)" where
  "create_shared_file_handler st =
     (case LOG_DIRECTORY st of
        None \<Rightarrow> Inl AttributeError
      | Some d \<Rightarrow>
          (let current_date = env_today st;
               log_directory = d @ [env_node st, env_user st];
               st1 = st\<lparr>fs_dirs := mkdir_parents log_directory (fs_dirs st)\<rparr>;
               log_file = current_date @ ''.log'';
               log_file_path = log_directory @ [log_file];
               st2 = open_append log_file_path st1;
               file_handler =
                 \<lparr>h_kind = FXTimedRotatingFileHandler log_file_path,
                  h_formatter = Some (FXFormatter_init (COLOR_SUPPORTED st2) False False),
                  h_level = DEBUG\<rparr>
           in Inr (length (handlers st2), st2\<lparr>handlers := handlers st2 @ [file_handler]\<rparr>)))"

definition set_log_directory :: "path \<Rightarrow> state \<Rightarrow> error + state" where
  "set_log_directory log_directory st =
     (if LOG_DIRECTORY st \<noteq> None then Inr st
      else
        (let st1 = st\<lparr>LOG_DIRECTORY := Some log_directory\<rparr>
         in if is_dir st1 log_directory
            then (case create_shared_file_handler st1 of
                    Inl e \<Rightarrow> Inl e
                  | Inr (h, st2) \<Rightarrow> Inr (st2\<lparr>SHARED_FILE_HANDLER := Some h\<rparr>))
            else Inr st1))"

text \<open>\<open>_check_log_directory\<close>; on success it hands the directory on.\<close>

definition check_log_directory :: "state \<Rightarrow> error + path" where
  "check_log_directory st =
     (case LOG_DIRECTORY st of
        None \<Rightarrow> Inl (ValueError ''Log directory is not set. Call `set_log_directory` first.'')
      | Some d \<Rightarrow>
          if \<not> is_dir st d
          then Inl (ValueError (''Log directory does not exist: '' @ quoted (path_str d) @ ''.''))
          else Inr d)"

subsection \<open>\<open>configure_logger\<close>\<close>

definition print :: "string \<Rightarrow> state \<Rightarrow> state" where
  "print line st = st\<lparr>stdout := stdout st @ [line]\<rparr>"

definition warning_not_set :: "string \<Rightarrow> string" where
  "warning_not_set logger_name =
     ''Warning: Logger '' @ quoted logger_name @ '' requested save_to_file=True ''
     @ ''but log directory is not set. Logs will only output to console. ''
     @ ''Call set_log_directory() to enable file logging.''"

definition warning_missing :: "string \<Rightarrow> path \<Rightarrow> string" where
  "warning_missing logger_name d =
     ''Warning: Logger '' @ quoted logger_name @ '' requested save_to_file=True ''
     @ ''but log directory does not exist: '' @ quoted (path_str d) @ ''. ''
     @ ''Logs will only output to console.''"

text \<open>Lines 385 to 401: whether file output is possible, with the warning if it is not.\<close>

definition check_save_to_file :: "string \<Rightarrow> bool \<Rightarrow> state \<Rightarrow> bool \<times> state" where
  "check_save_to_file logger_name save_to_file st =
     (if save_to_file then
        (case LOG_DIRECTORY st of
           None \<Rightarrow> (False, print (warning_not_set logger_name) st)
         | Some d \<Rightarrow>
             if \<not> is_dir st d then (False, print (warning_missing logger_name d) st)
             else (save_to_file, st))
      else (save_to_file, st))"

text \<open>
  Lines 403 to 410: a logger registered under the name is returned if it is an
  \<open>FXColorLogger\<close>; any other one is left to the code that follows.
\<close>

definition existing_FXColorLogger :: "string \<Rightarrow> state \<Rightarrow> nat option \<times> state" where
  "existing_FXColorLogger logger_name st =
     (if loggerDict st logger_name \<noteq> None then
        (case getLogger logger_name st of
           (existing_logger, st1) \<Rightarrow>
             if lg_class (loggers st1 ! existing_logger) = FXColorLogger
             then (Some existing_logger, st1)
             else (None, st1))
      else (None, st))"

text \<open>Lines 434 to 443: the shared file handler, created if need be, is attached.\<close>

definition attach_shared_file_handler :: "nat \<Rightarrow> state \<Rightarrow> error + state" where
  "attach_shared_file_handler lg st =
     (case SHARED_FILE_HANDLER st of
        None \<Rightarrow>
          (case create_shared_file_handler st of
             Inl e \<Rightarrow> Inl e
           | Inr (h, st1) \<Rightarrow> Inr (addHandler lg h (st1\<lparr>SHARED_FILE_HANDLER := Some h\<rparr>)))
      | Some h \<Rightarrow> Inr (addHandler lg h st))"

text \<open>
  \<open>logger.setLevel(level)\<close> followed by \<open>handler.setLevel(level)\<close> for each handler of
  the logger, as \<open>configure_logger\<close> and \<open>set_loggers_level\<close> both do.
\<close>

definition apply_level :: "nat \<Rightarrow> int \<Rightarrow> state \<Rightarrow> state" where
  "apply_level a lvl st =
     (let st1 = setLevel a lvl st
      in fold (\<lambda>h. Handler_setLevel h lvl) (lg_handlers (loggers st1 ! a)) st1)"

definition set_add :: "string \<Rightarrow> string list \<Rightarrow> string list" where
  "set_add x xs = (if x \<in> set xs then xs else xs @ [x])"

text \<open>Lines 445 to 457.\<close>

definition finish_logger :: "string \<Rightarrow> nat \<Rightarrow> state \<Rightarrow> nat \<times> state" where
  "finish_logger logger_name lg st =
     (let st1 = st\<lparr>loggers := (loggers st)[lg := (loggers st ! lg)\<lparr>lg_propagate := False\<rparr>]\<rparr>;
          st2 = st1\<lparr>CONFIGURED_LOGGERS := set_add logger_name (CONFIGURED_LOGGERS st1)\<rparr>
      in case DEFAULT_LEVEL st2 of
           None \<Rightarrow> (lg, st2)
         | Some lvl \<Rightarrow> (lg, apply_level lg lvl st2))"

text \<open>Lines 412 to 457: the logger is fetched under the module's class and wired.\<close>

definition build_logger ::
  "string \<Rightarrow> bool \<Rightarrow> bool \<Rightarrow> bool \<Rightarrow> state \<Rightarrow> error + (nat \<times> state)" where
  "build_logger logger_name enable_color_arg enable_separator_arg can_save_to_file st =
     (let old_logger_class = loggerClass st;
          st1 = st\<lparr>loggerClass := FXColorLogger\<rparr>;
          formatter = FXFormatter_init (COLOR_SUPPORTED st1) enable_color_arg enable_separator_arg
      in case getLogger logger_name st1 of
           (lg, st2) \<Rightarrow>
             (let st3 = st2\<lparr>loggerClass := old_logger_class\<rparr>;
                  console_handler = length (handlers st3);
                  st4 = st3\<lparr>handlers := handlers st3 @
                          [\<lparr>h_kind = StreamHandler, h_formatter = Some formatter,
                            h_level = DEBUG\<rparr>]\<rparr>;
                  st5 = addHandler lg console_handler st4
              in if can_save_to_file
                 then (case attach_shared_file_handler lg st5 of
                         Inl e \<Rightarrow> Inl e
                       | Inr st6 \<Rightarrow> Inr (finish_logger logger_name lg st6))
                 else Inr (finish_logger logger_name lg st5)))"

definition configure_logger ::
  "string \<Rightarrow> bool \<Rightarrow> bool \<Rightarrow> bool \<Rightarrow> state \<Rightarrow> error + (nat \<times> state)" where
  "configure_logger logger_name enable_color_arg enable_separator_arg save_to_file st =
     (case check_save_to_file logger_name save_to_file st of
        (can_save_to_file, st1) \<Rightarrow>
          (case existing_FXColorLogger logger_name st1 of
             (Some existing_logger, st2) \<Rightarrow> Inr (existing_logger, st2)
           | (None, st2) \<Rightarrow>
               build_logger logger_name enable_color_arg enable_separator_arg
                 can_save_to_file st2))"

subsection \<open>\<open>set_loggers_level\<close>, \<open>delete_old_logs\<close>, \<open>clear_logs\<close>\<close>



text \<open>
  \<open>Path.iterdir\<close>: the entries directly under a directory. \<open>Path.unlink\<close> removes a file.
\<close>

definition iterdir :: "state \<Rightarrow> path \<Rightarrow> path list" where
  "iterdir st d = filter (\<lambda>p. p \<noteq> [] \<and> butlast p = d) (map fst (fs_files st) @ fs_dirs st)"

definition unlink :: "path \<Rightarrow> state \<Rightarrow> state" where
  "unlink p st = st\<lparr>fs_files := filter (\<lambda>(q, m). q \<noteq> p) (fs_files st)\<rparr>"



definition clear_logs :: "state \<Rightarrow> error + state" where
  "clear_logs st =
     (case check_log_directory st of
        Inl e \<Rightarrow> Inl e
      | Inr d \<Rightarrow>
          Inr (fold (\<lambda>log_file s. if map_of (fs_files s) log_file \<noteq> None then unlink log_file s else s)
                 (iterdir st d) st))"

subsection \<open>Emitting records\<close>

definition makeRecord ::
  "string \<Rightarrow> int \<Rightarrow> string \<Rightarrow> nat \<Rightarrow> string \<Rightarrow> string \<Rightarrow> nat \<Rightarrow> LogRecord" where
  "makeRecord n lvl fn lno msg func created =
     \<lparr>rec_name = n, rec_levelno = lvl, rec_pathname = fn, rec_lineno = lno,
      rec_funcName = func, rec_created = created, rec_message = msg, rec_color = None,
      rec_module_function = None\<rparr>"

definition write_line :: "handler_kind \<Rightarrow> string \<Rightarrow> state \<Rightarrow> state" where
  "write_line k line st =
     (case k of
        StreamHandler \<Rightarrow> st\<lparr>stderr := stderr st @ [line]\<rparr>
      | FXTimedRotatingFileHandler p \<Rightarrow> st\<lparr>file_out := file_out st @ [(p, line)]\<rparr>)"

text \<open>\<open>Handler.handle\<close> for a handler without filters: format the record, write the line.\<close>

definition Handler_emit :: "nat \<Rightarrow> LogRecord \<Rightarrow> state \<Rightarrow> LogRecord \<times> state" where
  "Handler_emit h record st =
     (let hd = handlers st ! h
      in case h_formatter hd of
           None \<Rightarrow> (record, write_line (h_kind hd) (rec_message record) st)
         | Some f \<Rightarrow>
             (case FXFormatter_format f record (FXFormatter_loggers st) of
                (line, record1, loggers1) \<Rightarrow>
                  (record1, write_line (h_kind hd) line (st\<lparr>FXFormatter_loggers := loggers1\<rparr>))))"

fun emit_to :: "nat list \<Rightarrow> LogRecord \<Rightarrow> state \<Rightarrow> LogRecord \<times> state" where
  "emit_to [] record st = (record, st)"
| "emit_to (h # hs) record st =
     (if rec_levelno record \<ge> h_level (handlers st ! h)
      then (case Handler_emit h record st of (record1, st1) \<Rightarrow> emit_to hs record1 st1)
      else emit_to hs record st)"

text \<open>
  The loggers \<open>Logger.callHandlers\<close> visits: the logger itself and, as long as
  \<open>propagate\<close> is set, its ancestors up to the root logger.
\<close>

fun ancestor_chain :: "state \<Rightarrow> string list \<Rightarrow> nat list" where
  "ancestor_chain st [] = [0]"
| "ancestor_chain st (s # ss) =
     (case loggerDict st s of
        Some (LoggerAt b) \<Rightarrow>
          b # (if lg_propagate (loggers st ! b) then ancestor_chain st ss else [])
      | _ \<Rightarrow> ancestor_chain st ss)"

definition logger_chain :: "state \<Rightarrow> nat \<Rightarrow> nat list" where
  "logger_chain st a =
     (if a = 0 then [0]
      else a # (if lg_propagate (loggers st ! a)
                then ancestor_chain st (ancestor_names (lg_name (loggers st ! a)))
                else []))"

text \<open>
  \<open>Logger.handle\<close> and \<open>Logger.callHandlers\<close>; with no handler at all the record goes to
  the handler of last resort, which writes the bare message of a record at \<open>WARNING\<close> or
  above to the standard error stream.
\<close>

definition callHandlers :: "nat \<Rightarrow> LogRecord \<Rightarrow> state \<Rightarrow> LogRecord \<times> state" where
  "callHandlers a record st =
     (let hs = concat (map (\<lambda>c. lg_handlers (loggers st ! c)) (logger_chain st a))
      in if hs = []
         then (if rec_levelno record \<ge> WARNING
               then (record, st\<lparr>stderr := stderr st @ [rec_message record]\<rparr>)
               else (record, st))
         else emit_to hs record st)"

text \<open>
  \<open>FXColorLogger._log\<close>. The caller found by \<open>findCaller\<close> (file, line, function) is an
  argument. The first component of the result is the record that was built and handed to
  \<open>handle\<close>, \<open>None\<close> when no record was built.
\<close>

definition FXColorLogger_log ::
  "nat \<Rightarrow> int \<Rightarrow> string \<Rightarrow> string option \<Rightarrow> string \<times> nat \<times> string \<Rightarrow> state
    \<Rightarrow> LogRecord option \<times> state" where
  "FXColorLogger_log self lvl msg color caller st =
     (if isEnabledFor st self lvl then
        (case caller of
           (fn, lno, func) \<Rightarrow>
             (let record = makeRecord (lg_name (loggers st ! self)) lvl fn lno msg func
                             (nat (env_now st div 1000000));
                  record1 = (case color of
                               None \<Rightarrow> record
                             | Some c \<Rightarrow> if c \<noteq> [] then record\<lparr>rec_color := Some c\<rparr>
                                         else record)
              in (Some record1, snd (callHandlers self record1 st))))
      else (None, st))"

definition debug ::
  "nat \<Rightarrow> string \<Rightarrow> string option \<Rightarrow> string \<times> nat \<times> string \<Rightarrow> state \<Rightarrow> LogRecord option \<times> state" where
  "debug self msg color caller st =
     (if isEnabledFor st self DEBUG then FXColorLogger_log self DEBUG msg color caller st
      else (None, st))"


definition warning ::
  "nat \<Rightarrow> string \<Rightarrow> string option \<Rightarrow> string \<times> nat \<times> string \<Rightarrow> state \<Rightarrow> LogRecord option \<times> state" where
  "warning self msg color caller st =
     (if isEnabledFor st self WARNING then FXColorLogger_log self WARNING msg color caller st
      else (None, st))"

definition error ::
  "nat \<Rightarrow> string \<Rightarrow> string option \<Rightarrow> string \<times> nat \<times> string \<Rightarrow> state \<Rightarrow> LogRecord option \<times> state" where
  "error self msg color caller st =
     (if isEnabledFor st self ERROR then FXColorLogger_log self ERROR msg color caller st
      else (None, st))"

definition critical ::
  "nat \<Rightarrow> string \<Rightarrow> string option \<Rightarrow> string \<times> nat \<times> string \<Rightarrow> state \<Rightarrow> LogRecord option \<times> state" where
  "critical self msg color caller st =
     (if isEnabledFor st self CRITICAL then FXColorLogger_log self CRITICAL msg color caller st
      else (None, st))"

subsection \<open>Reading the stores\<close>

text \<open>
  The handlers attached to logger object \<open>i\<close>; an index beyond the store names no
  object and has none.
\<close>

definition handlers_of :: "state \<Rightarrow> nat \<Rightarrow> nat list" where
  "handlers_of st i = (if i < length (loggers st) then lg_handlers (loggers st ! i) else [])"

subsection \<open>Example states\<close>


text \<open>
  A fresh interpreter on a machine where the directory \<open>/logs\<close> exists and is empty.
\<close>

definition logs_state :: state where
  "logs_state = initial_state False [[''/logs'']] [] 0 ''2024_01_01'' ''host'' ''user''"

text \<open>
  The same after the application has called \<open>logging.getLogger("lib")\<close>: the name
  \<open>lib\<close> holds a plain \<open>logging.Logger\<close>.
\<close>

definition lib_state :: state where
  "lib_state = snd (getLogger ''lib'' logs_state)"


subsection \<open>Facts about \<open>rfind\<close> and \<open>splitext\<close>\<close>

lemma rfind_upto_absent:
  "\<forall>k<n. s ! k \<noteq> c \<Longrightarrow> rfind_upto c s n = -1"
  by (induction n) auto


lemma rfind_absent: "c \<notin> set s \<Longrightarrow> rfind c s = -1"
  unfolding rfind_def by (rule rfind_upto_absent) auto



lemma rfind_less_length: "rfind c s < int (length s)"
proof -
  have "rfind_upto c s n < int n" for n
    by (induction n) auto
  then show ?thesis by (simp add: rfind_def)
qed

subsection \<open>Facts about levels and handlers\<close>

lemma nth_update_any: "xs[a := v] ! i = (if i = a \<and> a < length xs then v else xs ! i)"
  by (cases "a < length xs") (auto simp: nth_list_update list_update_beyond)

lemma fold_Handler_setLevel:
  "fold (\<lambda>h. Handler_setLevel h lvl) hs st
   = st\<lparr>handlers := fold (\<lambda>h H. H[h := (H ! h)\<lparr>h_level := lvl\<rparr>]) hs (handlers st)\<rparr>"
  by (induction hs arbitrary: st) (simp_all add: Handler_setLevel_def)

lemma levels_length [simp]:
  "length (fold (\<lambda>h H. H[h := (H ! h)\<lparr>h_level := lvl\<rparr>]) hs H) = length H"
  by (induction hs arbitrary: H) simp_all

lemma levels_kind [simp]:
  "h_kind (fold (\<lambda>h H. H[h := (H ! h)\<lparr>h_level := lvl\<rparr>]) hs H ! i) = h_kind (H ! i)"
proof (induction hs arbitrary: H)
  case Nil then show ?case by simp
next
  case (Cons h hs)
  show ?case by (simp add: Cons.IH nth_update_any) 
qed

lemma levels_formatter [simp]:
  "h_formatter (fold (\<lambda>h H. H[h := (H ! h)\<lparr>h_level := lvl\<rparr>]) hs H ! i) = h_formatter (H ! i)"
proof (induction hs arbitrary: H)
  case Nil then show ?case by simp
next
  case (Cons h hs)
  show ?case by (simp add: Cons.IH nth_update_any) 
qed



lemma apply_level_eq:
  "apply_level a lvl st
   = st\<lparr>loggers := (loggers st)[a := (loggers st ! a)\<lparr>lg_level := lvl\<rparr>],
        handlers := fold (\<lambda>h H. H[h := (H ! h)\<lparr>h_level := lvl\<rparr>])
                      (lg_handlers ((loggers st)[a := (loggers st ! a)\<lparr>lg_level := lvl\<rparr>] ! a))
                      (handlers st)\<rparr>"
  by (simp add: apply_level_def Let_def setLevel_def fold_Handler_setLevel)

lemma lg_handlers_update_level [simp]:
  "lg_handlers (xs[a := (xs ! a)\<lparr>lg_level := lvl\<rparr>] ! i) = lg_handlers (xs ! i)"
  by (cases "a < length xs") (simp_all add: nth_update_any)

subsection \<open>Facts about the registry\<close>





lemma getLogger_cases:
  assumes "getLogger n st = (a, st')"
  shows "(st' = st \<and> (n = [] \<or> n = ''root'' \<longrightarrow> a = 0)
            \<and> (n \<noteq> [] \<and> n \<noteq> ''root'' \<longrightarrow> loggerDict st n = Some (LoggerAt a)))
         \<or> (n \<noteq> [] \<and> n \<noteq> ''root'' \<and> (\<forall>b. loggerDict st n \<noteq> Some (LoggerAt b))
            \<and> a = length (loggers st)
            \<and> st' = st\<lparr>loggers := loggers st @ [new_logger (loggerClass st) n],
                       loggerDict := fixupParents ((loggerDict st)(n \<mapsto> LoggerAt a))
                                       (ancestor_names n)\<rparr>)"
  using assms
  by (auto simp: getLogger_def Manager_getLogger_def Let_def
      split: if_splits option.splits dict_entry.splits)



lemma getLogger_found:
  assumes "loggerDict st n = Some (LoggerAt a)" and "n \<noteq> []" and "n \<noteq> ''root''"
  shows "getLogger n st = (a, st)"
  using assms by (simp add: getLogger_def Manager_getLogger_def)

subsection \<open>Facts about \<open>configure_logger\<close>\<close>

lemma getLogger_frame:
  assumes "getLogger n st = (a, st')"
  shows "st' = st\<lparr>loggers := loggers st', loggerDict := loggerDict st'\<rparr>"
  using getLogger_cases [OF assms] by auto

lemma check_save_to_file_result:
  "check_save_to_file n sf st = (can, st1) \<Longrightarrow>
     (can \<longleftrightarrow> sf \<and> (\<exists>d. LOG_DIRECTORY st = Some d \<and> is_dir st d))
     \<and> st1 = st\<lparr>stdout := stdout st1\<rparr>
     \<and> stdout st1 = stdout st @
          (if sf \<and> \<not> can
           then [case LOG_DIRECTORY st of None \<Rightarrow> warning_not_set n
                 | Some d \<Rightarrow> warning_missing n d]
           else [])"
  by (auto simp: check_save_to_file_def print_def split: if_splits option.splits)

lemma existing_FXColorLogger_found:
  assumes "existing_FXColorLogger n st = (Some a, st')"
  shows "lg_class (loggers st' ! a) = FXColorLogger \<and> getLogger n st = (a, st')
         \<and> loggerDict st n \<noteq> None"
  using assms
  by (auto simp: existing_FXColorLogger_def split: if_splits prod.splits)

lemma existing_FXColorLogger_none:
  assumes "existing_FXColorLogger n st = (None, st')"
  shows "(loggerDict st n = None \<and> st' = st)
         \<or> (\<exists>a. getLogger n st = (a, st') \<and> lg_class (loggers st' ! a) \<noteq> FXColorLogger)"
  using assms
  by (auto simp: existing_FXColorLogger_def split: if_splits prod.splits)

lemma addHandler_frame:
  "addHandler a h st = st\<lparr>loggers := loggers (addHandler a h st)\<rparr>"
  by (simp add: addHandler_def Let_def)

lemma addHandler_length [simp]: "length (loggers (addHandler a h st)) = length (loggers st)"
  by (simp add: addHandler_def Let_def)

lemma addHandler_class [simp]:
  "lg_class (loggers (addHandler a h st) ! i) = lg_class (loggers st ! i)"
  by (simp add: addHandler_def Let_def nth_update_any)

lemma addHandler_name [simp]:
  "lg_name (loggers (addHandler a h st) ! i) = lg_name (loggers st ! i)"
  by (simp add: addHandler_def Let_def nth_update_any)

lemma addHandler_level [simp]:
  "lg_level (loggers (addHandler a h st) ! i) = lg_level (loggers st ! i)"
  by (simp add: addHandler_def Let_def nth_update_any)

lemma addHandler_handlers:
  "lg_handlers (loggers (addHandler a h st) ! i)
   = (if i = a \<and> a < length (loggers st) \<and> h \<notin> set (lg_handlers (loggers st ! a))
      then lg_handlers (loggers st ! a) @ [h] else lg_handlers (loggers st ! i))"
  by (simp add: addHandler_def Let_def nth_update_any)

lemma finish_logger_fst [simp]: "fst (finish_logger n lg st) = lg"
  by (simp add: finish_logger_def Let_def split: option.splits)

lemma finish_logger_frame:
  "snd (finish_logger n lg st)
   = st\<lparr>loggers := loggers (snd (finish_logger n lg st)),
        handlers := handlers (snd (finish_logger n lg st)),
        CONFIGURED_LOGGERS := set_add n (CONFIGURED_LOGGERS st)\<rparr>"
  by (simp add: finish_logger_def Let_def apply_level_eq split: option.splits)

lemma finish_logger_length [simp]:
  "length (loggers (snd (finish_logger n lg st))) = length (loggers st)"
  "length (handlers (snd (finish_logger n lg st))) = length (handlers st)"
  by (simp_all add: finish_logger_def Let_def apply_level_eq split: option.splits)

lemma finish_logger_logger [simp]:
  "lg_class (loggers (snd (finish_logger n lg st)) ! i) = lg_class (loggers st ! i)"
  "lg_handlers (loggers (snd (finish_logger n lg st)) ! i) = lg_handlers (loggers st ! i)"
  "lg_name (loggers (snd (finish_logger n lg st)) ! i) = lg_name (loggers st ! i)"
  by (simp_all add: finish_logger_def Let_def apply_level_eq nth_update_any split: option.splits)

lemma finish_logger_handler [simp]:
  "h_kind (handlers (snd (finish_logger n lg st)) ! i) = h_kind (handlers st ! i)"
  "h_formatter (handlers (snd (finish_logger n lg st)) ! i) = h_formatter (handlers st ! i)"
  by (simp_all add: finish_logger_def Let_def apply_level_eq split: option.splits)


lemma build_logger_unfold:
  assumes "getLogger n (st\<lparr>loggerClass := FXColorLogger\<rparr>) = (lg, st2)"
  shows "build_logger n ec es can st =
     (let st5 = addHandler lg (length (handlers st))
                  (st2\<lparr>loggerClass := loggerClass st,
                       handlers := handlers st @
                         [\<lparr>h_kind = StreamHandler,
                           h_formatter = Some (FXFormatter_init (COLOR_SUPPORTED st) ec es),
                           h_level = DEBUG\<rparr>]\<rparr>)
      in if can
         then (case attach_shared_file_handler lg st5 of
                 Inl e \<Rightarrow> Inl e
               | Inr st6 \<Rightarrow> Inr (finish_logger n lg st6))
         else Inr (finish_logger n lg st5))"
proof -
  have "handlers st2 = handlers st" and "COLOR_SUPPORTED st2 = COLOR_SUPPORTED st"
    using getLogger_cases [OF assms] by auto
  then show ?thesis using assms by (simp add: build_logger_def Let_def)
qed

lemma create_shared_file_handler_eq:
  assumes "LOG_DIRECTORY st = Some d"
  shows "create_shared_file_handler st
     = Inr (length (handlers st),
            st\<lparr>fs_dirs := mkdir_parents (d @ [env_node st, env_user st]) (fs_dirs st),
               fs_files :=
                 (if d @ [env_node st, env_user st, env_today st @ ''.log'']
                       \<in> set (map fst (fs_files st))
                  then fs_files st
                  else fs_files st
                       @ [(d @ [env_node st, env_user st, env_today st @ ''.log''], env_now st)]),
               handlers := handlers st @
                 [\<lparr>h_kind = FXTimedRotatingFileHandler
                              (d @ [env_node st, env_user st, env_today st @ ''.log'']),
                   h_formatter = Some (FXFormatter_init (COLOR_SUPPORTED st) False False),
                   h_level = DEBUG\<rparr>]\<rparr>)"
  using assms
  by (simp add: create_shared_file_handler_def Let_def open_append_def)

lemma attach_shared_file_handler_succeeds:
  assumes "LOG_DIRECTORY st = Some d"
  shows "\<exists>st'. attach_shared_file_handler lg st = Inr st'"
proof (cases "SHARED_FILE_HANDLER st")
  case None
  with create_shared_file_handler_eq [OF assms] show ?thesis
    by (simp add: attach_shared_file_handler_def)
next
  case (Some h)
  then show ?thesis by (simp add: attach_shared_file_handler_def)
qed

lemma getLogger_LOG_DIRECTORY:
  "getLogger n st = (a, st') \<Longrightarrow> LOG_DIRECTORY st' = LOG_DIRECTORY st"
  using getLogger_cases [of n st a st'] by auto

lemma build_logger_succeeds:
  assumes "can \<longrightarrow> (\<exists>d. LOG_DIRECTORY st = Some d)"
  shows "\<exists>st'. build_logger n ec es can st = Inr (fst (getLogger n (st\<lparr>loggerClass := FXColorLogger\<rparr>)), st')"
proof -
  obtain lg st2 where g: "getLogger n (st\<lparr>loggerClass := FXColorLogger\<rparr>) = (lg, st2)"
    by (cases "getLogger n (st\<lparr>loggerClass := FXColorLogger\<rparr>)") auto
  let ?st5 = "addHandler lg (length (handlers st))
                  (st2\<lparr>loggerClass := loggerClass st,
                       handlers := handlers st @
                         [\<lparr>h_kind = StreamHandler,
                           h_formatter = Some (FXFormatter_init (COLOR_SUPPORTED st) ec es),
                           h_level = DEBUG\<rparr>]\<rparr>)"
  show ?thesis
  proof (cases can)
    case False
    then show ?thesis
      by (simp add: build_logger_unfold [OF g] g Let_def prod_eq_iff)
  next
    case True
    with assms obtain d where "LOG_DIRECTORY st = Some d" by auto
    then have "LOG_DIRECTORY st2 = Some d" using getLogger_LOG_DIRECTORY [OF g] by simp
    then have "LOG_DIRECTORY ?st5 = Some d"
      by (subst addHandler_frame) simp
    from attach_shared_file_handler_succeeds [OF this] obtain st6 where
      "attach_shared_file_handler lg ?st5 = Inr st6" by blast
    with True show ?thesis
      by (simp add: build_logger_unfold [OF g] g Let_def prod_eq_iff)
  qed
qed

lemma configure_logger_succeeds:
  "\<exists>a st'. configure_logger n ec es sf st = Inr (a, st')"
proof -
  obtain can st1 where c: "check_save_to_file n sf st = (can, st1)"
    by (cases "check_save_to_file n sf st") auto
  obtain ex st2 where e: "existing_FXColorLogger n st1 = (ex, st2)"
    by (cases "existing_FXColorLogger n st1") auto
  show ?thesis
  proof (cases ex)
    case (Some a)
    with c e show ?thesis by (simp add: configure_logger_def)
  next
    case None
    have d1: "LOG_DIRECTORY st1 = LOG_DIRECTORY st"
      using check_save_to_file_result [OF c]
      by (metis state.select_convs(2) state.surjective state.update_convs(17))
    have "LOG_DIRECTORY st2 = LOG_DIRECTORY st1"
      using existing_FXColorLogger_none [OF e [unfolded None]] getLogger_LOG_DIRECTORY
      by auto
    with d1 check_save_to_file_result [OF c]
    have "can \<longrightarrow> (\<exists>d. LOG_DIRECTORY st2 = Some d)" by auto
    from build_logger_succeeds [OF this, of n ec es] obtain st' where
      "build_logger n ec es can st2
       = Inr (fst (getLogger n (st2\<lparr>loggerClass := FXColorLogger\<rparr>)), st')" by blast
    then show ?thesis
      using c e None by (simp add: configure_logger_def)
  qed
qed

lemma getLogger_handlers_of:
  assumes "getLogger n st = (a, st')"
  shows "handlers_of st' i = handlers_of st i"
  using getLogger_cases [OF assms]
  by (auto simp: handlers_of_def nth_append new_logger_def)

lemma getLogger_length:
  assumes "getLogger n st = (a, st')"
  shows "length (loggers st) \<le> length (loggers st')"
  using getLogger_cases [OF assms] by auto

lemma addHandler_handlers_of:
  "handlers_of (addHandler a h st) i
   = (if i = a \<and> a < length (loggers st) \<and> h \<notin> set (handlers_of st a)
      then handlers_of st a @ [h] else handlers_of st i)"
  by (auto simp: handlers_of_def addHandler_handlers)

lemma finish_logger_handlers_of [simp]:
  "handlers_of (snd (finish_logger n lg st)) i = handlers_of st i"
  by (simp add: handlers_of_def)

lemma handlers_of_cong:
  "loggers st' = loggers st \<Longrightarrow> handlers_of st' i = handlers_of st i"
  by (simp add: handlers_of_def)

lemma existing_FXColorLogger_frame:
  assumes "existing_FXColorLogger n st = (ex, st')"
  shows "st' = st\<lparr>loggers := loggers st', loggerDict := loggerDict st'\<rparr>
         \<and> (\<forall>i. handlers_of st' i = handlers_of st i)
         \<and> length (loggers st) \<le> length (loggers st')"
proof (cases "loggerDict st n = None")
  case True
  with assms show ?thesis by (simp add: existing_FXColorLogger_def)
next
  case False
  obtain a st1 where g: "getLogger n st = (a, st1)" by (cases "getLogger n st") auto
  with False assms have "st' = st1"
    by (auto simp: existing_FXColorLogger_def split: if_splits)
  with g getLogger_frame [OF g] getLogger_handlers_of [OF g] getLogger_length [OF g]
  show ?thesis by simp
qed

lemma configure_logger_cases:
  assumes "configure_logger n ec es sf st = Inr (a, st')"
  shows "(\<exists>can st1. check_save_to_file n sf st = (can, st1)
            \<and> existing_FXColorLogger n st1 = (Some a, st'))
         \<or> (\<exists>can st1 st2. check_save_to_file n sf st = (can, st1)
            \<and> existing_FXColorLogger n st1 = (None, st2)
            \<and> build_logger n ec es can st2 = Inr (a, st'))"
  using assms
  by (auto simp: configure_logger_def split: prod.splits option.splits)

lemma getLogger_fields:
  assumes "getLogger n st = (a, st')"
  shows "stdout st' = stdout st" "stderr st' = stderr st" "file_out st' = file_out st"
    "handlers st' = handlers st" "SHARED_FILE_HANDLER st' = SHARED_FILE_HANDLER st"
    "fs_dirs st' = fs_dirs st" "fs_files st' = fs_files st"
    "DEFAULT_LEVEL st' = DEFAULT_LEVEL st" "COLOR_SUPPORTED st' = COLOR_SUPPORTED st"
    "CONFIGURED_LOGGERS st' = CONFIGURED_LOGGERS st" "loggerClass st' = loggerClass st"
    "FXFormatter_loggers st' = FXFormatter_loggers st"
  using getLogger_cases [OF assms] by auto

lemma existing_FXColorLogger_fields:
  assumes "existing_FXColorLogger n st = (ex, st')"
  shows "stdout st' = stdout st" "stderr st' = stderr st" "file_out st' = file_out st"
    "handlers st' = handlers st" "SHARED_FILE_HANDLER st' = SHARED_FILE_HANDLER st"
    "fs_dirs st' = fs_dirs st" "fs_files st' = fs_files st"
    "DEFAULT_LEVEL st' = DEFAULT_LEVEL st" "COLOR_SUPPORTED st' = COLOR_SUPPORTED st"
    "CONFIGURED_LOGGERS st' = CONFIGURED_LOGGERS st" "loggerClass st' = loggerClass st"
    "FXFormatter_loggers st' = FXFormatter_loggers st" "LOG_DIRECTORY st' = LOG_DIRECTORY st"
proof -
  have "st' = st \<or> (\<exists>a. getLogger n st = (a, st'))"
    using assms by (auto simp: existing_FXColorLogger_def split: if_splits prod.splits)
  then show "stdout st' = stdout st" "stderr st' = stderr st" "file_out st' = file_out st"
    "handlers st' = handlers st" "SHARED_FILE_HANDLER st' = SHARED_FILE_HANDLER st"
    "fs_dirs st' = fs_dirs st" "fs_files st' = fs_files st"
    "DEFAULT_LEVEL st' = DEFAULT_LEVEL st" "COLOR_SUPPORTED st' = COLOR_SUPPORTED st"
    "CONFIGURED_LOGGERS st' = CONFIGURED_LOGGERS st" "loggerClass st' = loggerClass st"
    "FXFormatter_loggers st' = FXFormatter_loggers st" "LOG_DIRECTORY st' = LOG_DIRECTORY st"
    using getLogger_fields getLogger_LOG_DIRECTORY by auto
qed

lemma finish_logger_fields:
  "stdout (snd (finish_logger n lg st)) = stdout st"
  "SHARED_FILE_HANDLER (snd (finish_logger n lg st)) = SHARED_FILE_HANDLER st"
  "fs_dirs (snd (finish_logger n lg st)) = fs_dirs st"
  "fs_files (snd (finish_logger n lg st)) = fs_files st"
  "loggerDict (snd (finish_logger n lg st)) = loggerDict st"
  "LOG_DIRECTORY (snd (finish_logger n lg st)) = LOG_DIRECTORY st"
  "DEFAULT_LEVEL (snd (finish_logger n lg st)) = DEFAULT_LEVEL st"
  by (simp_all add: finish_logger_def Let_def apply_level_eq split: option.splits)

lemma addHandler_fields:
  "stdout (addHandler a h st) = stdout st"
  "SHARED_FILE_HANDLER (addHandler a h st) = SHARED_FILE_HANDLER st"
  "fs_dirs (addHandler a h st) = fs_dirs st"
  "fs_files (addHandler a h st) = fs_files st"
  "handlers (addHandler a h st) = handlers st"
  "loggerDict (addHandler a h st) = loggerDict st"
  "LOG_DIRECTORY (addHandler a h st) = LOG_DIRECTORY st"
  "DEFAULT_LEVEL (addHandler a h st) = DEFAULT_LEVEL st"
  by (simp_all add: addHandler_def Let_def)

text \<open>The state in which \<open>configure_logger\<close> has attached the console handler.\<close>

lemma build_logger_console:
  assumes g: "getLogger n (st\<lparr>loggerClass := FXColorLogger\<rparr>) = (lg, st3)"
    and b: "build_logger n ec es False st = Inr (a, st')"
  shows "a = lg"
    and "stdout st' = stdout st" and "SHARED_FILE_HANDLER st' = SHARED_FILE_HANDLER st"
    and "fs_dirs st' = fs_dirs st" and "fs_files st' = fs_files st"
    and "loggerDict st' = loggerDict st3"
    and "length (handlers st') = Suc (length (handlers st))"
    and "i \<le> length (handlers st) \<Longrightarrow> h_kind (handlers st' ! i)
         = (if i = length (handlers st) then StreamHandler else h_kind (handlers st ! i))"
    and "h_formatter (handlers st' ! length (handlers st))
         = Some (FXFormatter_init (COLOR_SUPPORTED st) ec es)"
    and "handlers_of st' i
         = (if i = lg \<and> lg < length (loggers st3)
               \<and> length (handlers st) \<notin> set (handlers_of st3 lg)
            then handlers_of st3 lg @ [length (handlers st)] else handlers_of st3 i)"
    and "lg_class (loggers st' ! i) = lg_class (loggers st3 ! i)"
    and "length (loggers st') = length (loggers st3)"
proof -
  let ?st4 = "st3\<lparr>loggerClass := loggerClass st,
                   handlers := handlers st @
                     [\<lparr>h_kind = StreamHandler,
                       h_formatter = Some (FXFormatter_init (COLOR_SUPPORTED st) ec es),
                       h_level = DEBUG\<rparr>]\<rparr>"
  let ?st5 = "addHandler lg (length (handlers st)) ?st4"
  from b have eq: "(a, st') = finish_logger n lg ?st5"
    by (simp add: build_logger_unfold [OF g] Let_def)
  then have a: "a = fst (finish_logger n lg ?st5)" and st': "st' = snd (finish_logger n lg ?st5)"
    by (simp_all add: prod_eq_iff)
  note f = getLogger_fields [OF g]
  show "a = lg" using a by simp
  show "stdout st' = stdout st" unfolding st' by (simp add: finish_logger_fields addHandler_fields f)
  show "SHARED_FILE_HANDLER st' = SHARED_FILE_HANDLER st"
    unfolding st' by (simp add: finish_logger_fields addHandler_fields f)
  show "fs_dirs st' = fs_dirs st" unfolding st' by (simp add: finish_logger_fields addHandler_fields f)
  show "fs_files st' = fs_files st" unfolding st' by (simp add: finish_logger_fields addHandler_fields f)
  show "loggerDict st' = loggerDict st3"
    unfolding st' by (simp add: finish_logger_fields addHandler_fields)
  show "length (handlers st') = Suc (length (handlers st))"
    unfolding st' by (simp add: addHandler_fields)
  show "i \<le> length (handlers st) \<Longrightarrow> h_kind (handlers st' ! i)
         = (if i = length (handlers st) then StreamHandler else h_kind (handlers st ! i))"
    unfolding st' by (simp add: addHandler_fields nth_append)
  show "h_formatter (handlers st' ! length (handlers st))
         = Some (FXFormatter_init (COLOR_SUPPORTED st) ec es)"
    unfolding st' by (simp add: addHandler_fields)
  have h4: "handlers_of ?st4 j = handlers_of st3 j" for j
    by (simp add: handlers_of_def)
  show "handlers_of st' i
         = (if i = lg \<and> lg < length (loggers st3)
               \<and> length (handlers st) \<notin> set (handlers_of st3 lg)
            then handlers_of st3 lg @ [length (handlers st)] else handlers_of st3 i)"
    unfolding st' by (simp add: addHandler_handlers_of h4)
  show "lg_class (loggers st' ! i) = lg_class (loggers st3 ! i)"
    unfolding st' by simp
  show "length (loggers st') = length (loggers st3)"
    unfolding st' by simp
qed







subsection \<open>Facts about \<open>set_loggers_level\<close>\<close>

















section \<open>Claims\<close>

subsection \<open>C9: the rotation suffix goes between base name and extension\<close>



subsection \<open>C4: without colour support nothing is coloured\<close>











subsection \<open>C7: what \<open>format\<close> touches\<close>



subsection \<open>C2: the log directory is set once\<close>

lemma create_shared_file_handler_result:
  assumes "LOG_DIRECTORY st = Some d"
  shows "\<exists>st'. create_shared_file_handler st = Inr (length (handlers st), st')
      \<and> LOG_DIRECTORY st' = Some d
      \<and> handlers st' = handlers st @
          [\<lparr>h_kind = FXTimedRotatingFileHandler (d @ [env_node st, env_user st, env_today st @ ''.log'']),
            h_formatter = Some (FXFormatter_init (COLOR_SUPPORTED st) False False),
            h_level = DEBUG\<rparr>]"
  using assms by (simp add: create_shared_file_handler_def Let_def open_append_def)

text \<open>
  C2. For every pair of calls to \<open>set_log_directory\<close>, the first call (made while no
  directory is stored) wins: the second call is a no-op, it does not raise and does not
  change the stored directory or anything else, and a shared file sink created afterwards
  lies under the directory of the first call.
\<close>

theorem set_log_directory_first_wins:
  assumes "LOG_DIRECTORY st = None"
  shows "\<exists>st1. set_log_directory d1 st = Inr st1
           \<and> LOG_DIRECTORY st1 = Some d1
           \<and> set_log_directory d2 st1 = Inr st1
           \<and> (\<exists>st2. create_shared_file_handler st1 = Inr (length (handlers st1), st2)
                 \<and> h_kind (handlers st2 ! length (handlers st1))
                     = FXTimedRotatingFileHandler
                         (d1 @ [env_node st1, env_user st1, env_today st1 @ ''.log'']))"
proof -
  let ?s = "st\<lparr>LOG_DIRECTORY := Some d1\<rparr>"
  have "\<exists>st1. set_log_directory d1 st = Inr st1 \<and> LOG_DIRECTORY st1 = Some d1"
  proof (cases "is_dir ?s d1")
    case True
    obtain st' where "create_shared_file_handler ?s = Inr (length (handlers ?s), st')"
      and "LOG_DIRECTORY st' = Some d1"
      using create_shared_file_handler_result [of ?s d1] by auto
    then show ?thesis using assms True by (simp add: set_log_directory_def Let_def)
  next
    case False
    then show ?thesis using assms by (simp add: set_log_directory_def Let_def)
  qed
  then obtain st1 where first: "set_log_directory d1 st = Inr st1"
    and dir: "LOG_DIRECTORY st1 = Some d1" by blast
  have second: "set_log_directory d2 st1 = Inr st1"
    using dir by (simp add: set_log_directory_def)
  obtain st2 where "create_shared_file_handler st1 = Inr (length (handlers st1), st2)"
    and "handlers st2 = handlers st1 @
          [\<lparr>h_kind = FXTimedRotatingFileHandler (d1 @ [env_node st1, env_user st1, env_today st1 @ ''.log'']),
            h_formatter = Some (FXFormatter_init (COLOR_SUPPORTED st1) False False),
            h_level = DEBUG\<rparr>]"
    using create_shared_file_handler_result [OF dir] by blast
  then show ?thesis using first dir second by simp
qed

theorem set_log_directory_first_wins_witness:
  "LOG_DIRECTORY (initial_state False [[''/logs'']] [] 0 ''2024_01_01'' ''host'' ''user'') = None
   \<and> (\<exists>st1. set_log_directory [''/logs'']
               (initial_state False [[''/logs'']] [] 0 ''2024_01_01'' ''host'' ''user'') = Inr st1
           \<and> LOG_DIRECTORY st1 = Some [''/logs'']
           \<and> set_log_directory [''/other''] st1 = Inr st1)"
  using set_log_directory_first_wins
    [of "initial_state False [[''/logs'']] [] 0 ''2024_01_01'' ''host'' ''user''"
        "[''/logs'']" "[''/other'']"]
  by (auto simp: initial_state_def)

subsection \<open>C8: \<open>delete_old_logs\<close>\<close>





subsection \<open>C5: file output requested without a usable directory\<close>

text \<open>
  C5, as stated: for every call to \<open>configure_logger\<close> with \<open>save_to_file\<close> true while the
  log directory is unset or does not currently exist as a directory, the call does not
  fail; it prints a warning to standard output and creates or returns the logger with a
  console sink only and no file handler attached.

  The logger that is returned may have a file handler: one configured while the directory
  existed keeps the shared file handler when it is returned after the directory is gone.
  Below, \<open>/logs\<close> is removed between the two calls.
\<close>

theorem returned_logger_keeps_file_handler:
  "case set_log_directory [''/logs''] logs_state of
     Inl e \<Rightarrow> False
   | Inr s1 \<Rightarrow>
       (case configure_logger ''app'' True True True s1 of
          Inl e \<Rightarrow> False
        | Inr (a, s2) \<Rightarrow>
            (case configure_logger ''app'' True True True (s2\<lparr>fs_dirs := []\<rparr>) of
               Inl e \<Rightarrow> False
             | Inr (b, s3) \<Rightarrow>
                 b = a \<and> stdout s3 = [warning_missing ''app'' [''/logs'']]
                 \<and> SHARED_FILE_HANDLER s3 = Some 0
                 \<and> handlers_of s3 b = [1, 0]
                 \<and> h_kind (handlers s3 ! 0)
                     = FXTimedRotatingFileHandler [''/logs'', ''host'', ''user'', ''2024_01_01.log'']))"
  by code_simp

text \<open>
  C5, amended: for every call to \<open>configure_logger\<close> with \<open>save_to_file\<close> true while the
  log directory is unset or does not currently exist as a directory, the call does not
  fail; it prints one warning line to standard output; it neither creates the shared file
  handler nor touches the file system; the only handler it attaches to any logger is the
  console handler it creates, so that a logger it creates under a fresh name has that
  console handler only; and a registered \<open>FXColorLogger\<close> is returned with the state as
  it was but for the warning.
\<close>

theorem configure_logger_without_directory:
  assumes nodir: "LOG_DIRECTORY st = None \<or> (\<exists>d. LOG_DIRECTORY st = Some d \<and> \<not> is_dir st d)"
  shows "\<exists>a st'. configure_logger n ec es True st = Inr (a, st')
     \<and> stdout st' = stdout st @ [case LOG_DIRECTORY st of None \<Rightarrow> warning_not_set n
                                  | Some d \<Rightarrow> warning_missing n d]
     \<and> SHARED_FILE_HANDLER st' = SHARED_FILE_HANDLER st
     \<and> fs_dirs st' = fs_dirs st \<and> fs_files st' = fs_files st
     \<and> (\<forall>i. set (handlers_of st' i) \<subseteq> insert (length (handlers st)) (set (handlers_of st i)))
     \<and> (\<forall>h<length (handlers st').
           h_kind (handlers st' ! h)
           = (if h < length (handlers st) then h_kind (handlers st ! h) else StreamHandler))
     \<and> (loggerDict st n = None \<and> n \<noteq> [] \<and> n \<noteq> ''root''
          \<longrightarrow> handlers_of st' a = [length (handlers st)]
              \<and> length (handlers st') = Suc (length (handlers st))
              \<and> lg_class (loggers st' ! a) = FXColorLogger)
     \<and> (\<forall>b. loggerDict st n = Some (LoggerAt b) \<and> n \<noteq> [] \<and> n \<noteq> ''root''
              \<and> lg_class (loggers st ! b) = FXColorLogger
          \<longrightarrow> a = b \<and> st' = st\<lparr>stdout := stdout st'\<rparr>)"
proof -
  let ?w = "case LOG_DIRECTORY st of None \<Rightarrow> warning_not_set n | Some d \<Rightarrow> warning_missing n d"
  let ?st1 = "print ?w st"
  let ?c = "length (handlers st)"
  have chk: "check_save_to_file n True st = (False, ?st1)"
    using nodir by (auto simp: check_save_to_file_def)
  have st1: "stdout ?st1 = stdout st @ [?w]" "handlers ?st1 = handlers st"
    "loggers ?st1 = loggers st" "loggerDict ?st1 = loggerDict st"
    "SHARED_FILE_HANDLER ?st1 = SHARED_FILE_HANDLER st" "fs_dirs ?st1 = fs_dirs st"
    "fs_files ?st1 = fs_files st" "COLOR_SUPPORTED ?st1 = COLOR_SUPPORTED st"
    by (simp_all add: print_def)
  have ho1: "handlers_of ?st1 i = handlers_of st i" for i
    by (simp add: handlers_of_def print_def)
  obtain a st' where conf: "configure_logger n ec es True st = Inr (a, st')"
    using configure_logger_succeeds by blast
  from configure_logger_cases [OF conf] chk
  consider (existing) "existing_FXColorLogger n ?st1 = (Some a, st')"
    | (built) st2 where "existing_FXColorLogger n ?st1 = (None, st2)"
        "build_logger n ec es False st2 = Inr (a, st')"
    by auto
  then have "stdout st' = stdout st @ [?w]
     \<and> SHARED_FILE_HANDLER st' = SHARED_FILE_HANDLER st
     \<and> fs_dirs st' = fs_dirs st \<and> fs_files st' = fs_files st
     \<and> (\<forall>i. set (handlers_of st' i) \<subseteq> insert ?c (set (handlers_of st i)))
     \<and> (\<forall>h<length (handlers st').
           h_kind (handlers st' ! h)
           = (if h < length (handlers st) then h_kind (handlers st ! h) else StreamHandler))
     \<and> (loggerDict st n = None \<and> n \<noteq> [] \<and> n \<noteq> ''root''
          \<longrightarrow> handlers_of st' a = [?c] \<and> length (handlers st') = Suc ?c
              \<and> lg_class (loggers st' ! a) = FXColorLogger)
     \<and> (\<forall>b. loggerDict st n = Some (LoggerAt b) \<and> n \<noteq> [] \<and> n \<noteq> ''root''
              \<and> lg_class (loggers st ! b) = FXColorLogger
          \<longrightarrow> a = b \<and> st' = st\<lparr>stdout := stdout st'\<rparr>)"
  proof cases
    case existing
    note f = existing_FXColorLogger_fields [OF existing]
    note fr = existing_FXColorLogger_frame [OF existing]
    note fo = existing_FXColorLogger_found [OF existing]
    have fresh: "loggerDict st n \<noteq> None" using fo st1 by simp
    have same: "a = b \<and> st' = st\<lparr>stdout := stdout st'\<rparr>"
      if "loggerDict st n = Some (LoggerAt b)" "n \<noteq> []" "n \<noteq> ''root''" for b
    proof -
      have "getLogger n ?st1 = (b, ?st1)"
        using that by (intro getLogger_found) (simp_all add: st1)
      with fo have "a = b" "st' = ?st1" by simp_all
      then show ?thesis by (simp add: print_def)
    qed
    show ?thesis
      using f(1,4-7) fr [THEN conjunct2] fresh same by (auto simp: st1 ho1)
  next
    case built
    note f = existing_FXColorLogger_fields [OF built(1)]
    note fr = existing_FXColorLogger_frame [OF built(1)]
    obtain lg st3 where g: "getLogger n (st2\<lparr>loggerClass := FXColorLogger\<rparr>) = (lg, st3)"
      by (cases "getLogger n (st2\<lparr>loggerClass := FXColorLogger\<rparr>)") auto
    note bl = build_logger_console [OF g built(2)]
    have ho3: "handlers_of st3 i = handlers_of st i" for i
    proof -
      have "handlers_of st3 i = handlers_of (st2\<lparr>loggerClass := FXColorLogger\<rparr>) i"
        by (rule getLogger_handlers_of [OF g])
      also have "\<dots> = handlers_of st2 i" by (simp add: handlers_of_def)
      also have "\<dots> = handlers_of st i" using fr [THEN conjunct2] ho1 by simp
      finally show ?thesis .
    qed
    have len: "length (handlers st2) = ?c" using f st1 by simp
    have sub: "set (handlers_of st' i) \<subseteq> insert ?c (set (handlers_of st i))" for i
      using bl(10) [of i] by (auto simp: len ho3)
    have kinds: "h_kind (handlers st' ! h)
           = (if h < length (handlers st) then h_kind (handlers st ! h) else StreamHandler)"
      if "h < length (handlers st')" for h
      using that bl(7) bl(8) [of h] f(4) st1(2) by (auto simp: len)
    have fresh: "handlers_of st' a = [?c] \<and> length (handlers st') = Suc ?c
        \<and> lg_class (loggers st' ! a) = FXColorLogger"
      if "loggerDict st n = None" "n \<noteq> []" "n \<noteq> ''root''"
    proof -
      have "st2 = ?st1"
        using built(1) that by (simp add: existing_FXColorLogger_def st1)
      then have d2: "loggerDict (st2\<lparr>loggerClass := FXColorLogger\<rparr>) n = None"
        and l2: "loggers (st2\<lparr>loggerClass := FXColorLogger\<rparr>) = loggers st"
        using that by (simp_all add: print_def)
      from getLogger_cases [OF g] d2 that
      have lg: "lg = length (loggers st)"
        and l3: "loggers st3 = loggers st @ [new_logger FXColorLogger n]"
        by (auto simp: l2)
      have "handlers_of st3 lg = []" using ho3 [of lg] lg by (simp add: handlers_of_def)
      then have "handlers_of st' a = [?c]"
        using bl(1) bl(10) [of a] lg l3 by (simp add: len)
      moreover have "lg_class (loggers st' ! a) = FXColorLogger"
        using bl(1) bl(11) [of a] lg l3 by (simp add: new_logger_def)
      ultimately show ?thesis using bl(7) by (simp add: len)
    qed
    have notfx: "False"
      if "loggerDict st n = Some (LoggerAt b)" "n \<noteq> []" "n \<noteq> ''root''"
        "lg_class (loggers st ! b) = FXColorLogger" for b
    proof -
      have "getLogger n ?st1 = (b, ?st1)"
        using that by (intro getLogger_found) (simp_all add: st1)
      then have "existing_FXColorLogger n ?st1 = (Some b, ?st1)"
        using that by (simp add: existing_FXColorLogger_def st1)
      with built(1) show False by simp
    qed
    show ?thesis
      using bl(2-5) f(1,4-7) st1 sub kinds fresh notfx by (auto simp: len)
  qed
  with conf show ?thesis by blast
qed

theorem configure_logger_without_directory_witness:
  "(LOG_DIRECTORY logs_state = None
      \<or> (\<exists>d. LOG_DIRECTORY logs_state = Some d \<and> \<not> is_dir logs_state d))
   \<and> (\<exists>a st'. configure_logger ''app'' True True True logs_state = Inr (a, st')
          \<and> stdout st' = [warning_not_set ''app'']
          \<and> handlers_of st' a = [0]
          \<and> h_kind (handlers st' ! 0) = StreamHandler)"
  using configure_logger_without_directory [of logs_state "''app''" True True]
  by (auto simp: logs_state_def initial_state_def)

subsection \<open>C1: a repeated call returns the registered logger\<close>




subsection \<open>C10: a registered logger of another class\<close>



text \<open>With two console handlers every record is written twice.\<close>

lemma plain_logger_output_duplicated:
  "case configure_logger ''lib'' True True False lib_state of
     Inl e \<Rightarrow> False
   | Inr (a, s1) \<Rightarrow>
       (case configure_logger ''lib'' True True False s1 of
          Inl e \<Rightarrow> False
        | Inr (b, s2) \<Rightarrow>
            stderr (snd (callHandlers b
                     (makeRecord ''lib'' WARNING ''lib.py'' 3 ''once'' ''run'' 0) s2))
            = [''-------------------------------------------------------------------------------''
                 @ [NL] @ ''00:00:00  WARNING lib:run:3'' @ [NL] @ ''    once'',
               ''-------------------------------------------------------------------------------''
                 @ [NL] @ ''00:00:00  WARNING lib:run:3'' @ [NL] @ ''    once''])"
  by code_simp

subsection \<open>C6: the level of the shared file handler\<close>





end
